theory Spec2Isabelle
  imports Main
begin

section \<open>Data model\<close>

text \<open>
  The popup component of CookieMuncher keeps five pieces of React state: the session
  list, the id of the active session, the text of the name input, a loading flag and
  one error message. A session records the cookies captured for it.

  A cookie snapshot carries the attributes the component reads: name, value, domain,
  path, the three flags and an optional expiry. JavaScript strings are modelled as
  \<open>string\<close> (code units restricted to the 8-bit range), numbers that the code only
  copies and tests for truthiness (tab ids, expiry dates) as \<open>int\<close>. Field names with a
  suffix (\<open>value_c\<close>, \<open>id_s\<close>, \<open>name_s\<close>) are the source's \<open>value\<close>, \<open>id\<close> and
  \<open>name\<close>.
\<close>

record cookie =
  name :: string
  value_c :: string
  domain :: string
  path :: string
  secure :: bool
  httpOnly :: bool
  sameSite :: string
  expirationDate :: "int option"

record session =
  id_s :: string
  name_s :: string
  tabId :: "int option"
  cookies :: "cookie list"

record state =
  sessions :: "session list"
  activeSessionId :: "string option"
  newSessionName :: string
  loading :: bool
  error :: "string option"

text \<open>The argument of the host's cookie-change notification.\<close>

record changeInfo =
  removed :: bool
  cookie :: cookie

definition MAX_SESSION_NAME_LENGTH :: nat where
  "MAX_SESSION_NAME_LENGTH = 20"

text \<open>The state of \<open>useState\<close> before the first render.\<close>

definition initial_state :: state where
  "initial_state =
     \<lparr>sessions = [], activeSessionId = None, newSessionName = [], loading = True,
      error = None\<rparr>"

subsection \<open>JavaScript helpers\<close>

text \<open>
  \<open>String.prototype.trim\<close> strips white space and line terminators from both ends;
  within the 8-bit range these are TAB, LF, VT, FF, CR, SPACE and NBSP.
\<close>

definition is_ws :: "char \<Rightarrow> bool" where
  "is_ws c = (c \<in> set [CHR 0x09, CHR 0x0A, CHR 0x0B, CHR 0x0C, CHR 0x0D, CHR 0x20, CHR 0xA0])"

definition trim :: "string \<Rightarrow> string" where
  "trim s = rev (dropWhile is_ws (rev (dropWhile is_ws s)))"

text \<open>\<open>Array.prototype.findIndex\<close>: the first index whose element satisfies the
  predicate, \<open>-1\<close> when there is none.\<close>

fun findIndex :: "('a \<Rightarrow> bool) \<Rightarrow> 'a list \<Rightarrow> int" where
  "findIndex P [] = - 1"
| "findIndex P (x # xs) =
     (if P x then 0 else (let r = findIndex P xs in if r < 0 then - 1 else r + 1))"

text \<open>Truthiness of the values the component tests with a bare \<open>if\<close>: a string id
  (\<open>null\<close> and the empty string are falsy) and an optional number (\<open>undefined\<close> and
  \<open>0\<close> are falsy).\<close>

definition truthy_str :: "string option \<Rightarrow> bool" where
  "truthy_str a = (case a of None \<Rightarrow> False | Some s \<Rightarrow> s \<noteq> [])"

definition truthy_num :: "int option \<Rightarrow> bool" where
  "truthy_num a = (case a of None \<Rightarrow> False | Some n \<Rightarrow> n \<noteq> 0)"

section \<open>The host environment\<close>

text \<open>
  Stored values are plain JSON data. The value kept under the key \<open>sessions\<close> is
  typed by the source's \<open>interface Session\<close> where the loader's check lets it
  through: an entry is a primitive value, an array, or an object; of an object the
  \<open>id\<close> and \<open>name\<close> properties are any JSON value or absent, the \<open>cookies\<close>
  property is an array of cookies, a value that is not an array, or absent, and the
  \<open>tabId\<close> property is a number or absent. Objects with further properties, or with
  a \<open>cookies\<close> array that holds other things than cookies, are not values of this
  type.
\<close>

datatype json =
  JNull
| JBool bool
| JNum int
| JStr string
| JArr "json list"
| JObj "(string \<times> json) list"

datatype scalar =
  SNull
| SBool bool
| SNum int
| SStr string

datatype stored_cookies =
  Cookie_Array "cookie list"
| Cookies_Scalar scalar
| Cookies_Object "(string \<times> json) list"

record stored_object =
  id_field :: "json option"
  name_field :: "json option"
  cookies_field :: "stored_cookies option"
  tabId_field :: "int option"

datatype stored_entry =
  Entry_Scalar scalar
| Entry_Array "json list"
| Entry_Object stored_object

datatype stored_value =
  Stored_Entries "stored_entry list"
| Stored_Scalar scalar
| Stored_Object "(string \<times> json) list"

text \<open>Truthiness of an entry, its properties \<open>id\<close>, \<open>name\<close> and \<open>cookies\<close>
  (\<open>undefined\<close> on everything but an object), and the two type tests of the loader.\<close>

fun truthy_scalar :: "scalar \<Rightarrow> bool" where
  "truthy_scalar SNull = False"
| "truthy_scalar (SBool b) = b"
| "truthy_scalar (SNum n) = (n \<noteq> 0)"
| "truthy_scalar (SStr s) = (s \<noteq> [])"

fun truthy_entry :: "stored_entry \<Rightarrow> bool" where
  "truthy_entry (Entry_Scalar v) = truthy_scalar v"
| "truthy_entry (Entry_Array xs) = True"
| "truthy_entry (Entry_Object ob) = True"

fun entry_id :: "stored_entry \<Rightarrow> json option" where
  "entry_id (Entry_Object ob) = id_field ob"
| "entry_id e = None"

fun entry_name :: "stored_entry \<Rightarrow> json option" where
  "entry_name (Entry_Object ob) = name_field ob"
| "entry_name e = None"

fun entry_cookies :: "stored_entry \<Rightarrow> stored_cookies option" where
  "entry_cookies (Entry_Object ob) = cookies_field ob"
| "entry_cookies e = None"

fun is_string :: "json option \<Rightarrow> bool" where
  "is_string (Some (JStr s)) = True"
| "is_string v = False"

fun is_array :: "stored_cookies option \<Rightarrow> bool" where
  "is_array (Some (Cookie_Array cs)) = True"
| "is_array v = False"

text \<open>
  Every call the component makes to the browser is recorded. The host keeps the live
  cookie jar, the open tabs with their URLs, the stored session list and the log of
  calls issued so far.
\<close>

datatype host_call =
  TabsCreate
| TabsRemove int
| TabsGet int
| CookiesGetAll string
| CookiesRemove string string
| CookiesSet string cookie
| StorageGet
| StorageSet "stored_entry list"

record host =
  jar :: "cookie list"
  tabs :: "(int \<times> string option) list"
  next_tab :: int
  storage :: "stored_value option"
  calls :: "host_call list"

text \<open>
  Three aspects of the browser are parameters of the model. \<open>fails n c\<close> says that the
  host rejects call \<open>c\<close> when it is the \<open>n\<close>-th call issued; \<open>scope url k\<close> says that
  cookie \<open>k\<close> is one of the cookies the browser associates with \<open>url\<close>;
  \<open>new_URL s\<close> is the result of the constructor \<open>new URL(s)\<close>: \<open>None\<close> when it
  throws, otherwise the \<open>href\<close> of the URL object, the normalised form of \<open>s\<close>.
\<close>

type_synonym failures = "nat \<Rightarrow> host_call \<Rightarrow> bool"
type_synonym scoping = "string \<Rightarrow> cookie \<Rightarrow> bool"
type_synonym url_parser = "string \<Rightarrow> string option"

definition issue :: "host_call \<Rightarrow> host \<Rightarrow> host" where
  "issue c h = h\<lparr>calls := calls h @ [c]\<rparr>"

definition rejected :: "failures \<Rightarrow> host \<Rightarrow> host_call \<Rightarrow> bool" where
  "rejected fails h c = fails (length (calls h)) c"

text \<open>
  Modelled from the spec: the browser's cookie store is not part of the repository.
  Section 6 of the specification lists its operations: get-all scoped by URL, remove by
  URL and name, and set with name, value, domain, path, flags and optional expiry.
  A cookie is identified in the jar by name, domain and path; setting a cookie replaces
  the one with the same identity.
\<close>

definition cookie_key :: "cookie \<Rightarrow> string \<times> string \<times> string" where
  "cookie_key k = (name k, domain k, path k)"

definition jar_getAll :: "scoping \<Rightarrow> string \<Rightarrow> host \<Rightarrow> cookie list" where
  "jar_getAll scope url h = filter (scope url) (jar h)"

definition jar_remove :: "scoping \<Rightarrow> string \<Rightarrow> string \<Rightarrow> host \<Rightarrow> host" where
  "jar_remove scope url n h = h\<lparr>jar := filter (\<lambda>k. \<not> (scope url k \<and> name k = n)) (jar h)\<rparr>"

definition jar_set :: "cookie \<Rightarrow> host \<Rightarrow> host" where
  "jar_set c h = h\<lparr>jar := filter (\<lambda>k. cookie_key k \<noteq> cookie_key c) (jar h) @ [c]\<rparr>"

section \<open>Session management\<close>

subsection \<open>createSession\<close>

text \<open>
  \<open>new_id\<close> is the value \<open>uuidv4()\<close> returns. The three validation checks run in the
  source's order against the session list of the current render; the length check
  reads the untrimmed name. The state updates after the checks are functional updates
  of the running state. The last two statements run on both paths of the
  \<open>try\<close>/\<open>catch\<close>.
\<close>

definition createSession :: "failures \<Rightarrow> string \<Rightarrow> string \<Rightarrow> state \<times> host \<Rightarrow> state \<times> host" where
  "createSession fails new_id nm w =
     (let st = fst w; h = snd w in
      if trim nm = [] then
        (st\<lparr>error := Some ''Session name cannot be empty.''\<rparr>, h)
      else if list_ex (\<lambda>s. name_s s = trim nm) (sessions st) then
        (st\<lparr>error := Some ''A session with this name already exists.''\<rparr>, h)
      else if length nm > MAX_SESSION_NAME_LENGTH then
        (st\<lparr>error := Some ''Session name cannot be longer than 20 characters.''\<rparr>, h)
      else
        let newSession = \<lparr>id_s = new_id, name_s = trim nm, tabId = None, cookies = []\<rparr>;
            st1 = st\<lparr>sessions := sessions st @ [newSession],
                     activeSessionId := Some new_id\<rparr>;
            h1 = issue TabsCreate h;
            r = (if rejected fails h TabsCreate then
                   (st1\<lparr>error := Some ''Failed to create new tab.'',
                        sessions := filter (\<lambda>s. id_s s \<noteq> new_id) (sessions st1),
                        activeSessionId := None\<rparr>, h1)
                 else
                   (st1\<lparr>sessions :=
                          map (\<lambda>s. if id_s s = new_id then s\<lparr>tabId := Some (next_tab h1)\<rparr> else s)
                            (sessions st1)\<rparr>,
                    h1\<lparr>tabs := tabs h1 @ [(next_tab h1, None)], next_tab := next_tab h1 + 1\<rparr>))
        in ((fst r)\<lparr>newSessionName := [], error := None\<rparr>, snd r))"

subsection \<open>deleteSession\<close>

text \<open>The URL the source builds for removing one recorded cookie.\<close>

definition cookie_url :: "cookie \<Rightarrow> string" where
  "cookie_url c = (if secure c then ''https://'' else ''http://'') @ domain c @ path c"

text \<open>
  The loop over \<open>cookiesToDelete\<close> inside its \<open>try\<close>: the first rejected call ends
  the loop. The flag says whether the \<open>catch\<close> block ran.
\<close>

fun remove_session_cookies :: "failures \<Rightarrow> scoping \<Rightarrow> cookie list \<Rightarrow> host \<Rightarrow> bool \<times> host" where
  "remove_session_cookies fails scope [] h = (False, h)"
| "remove_session_cookies fails scope (c # cs) h =
     (let call = CookiesRemove (cookie_url c) (name c) in
      if rejected fails h call then (True, issue call h)
      else remove_session_cookies fails scope cs
             (jar_remove scope (cookie_url c) (name c) (issue call h)))"

definition close_tab :: "failures \<Rightarrow> int \<Rightarrow> host \<Rightarrow> host" where
  "close_tab fails t h =
     (if rejected fails h (TabsRemove t) then issue (TabsRemove t) h
      else (issue (TabsRemove t) h)\<lparr>tabs := filter (\<lambda>p. fst p \<noteq> t) (tabs h)\<rparr>)"

text \<open>
  \<open>sessions\<close> and \<open>activeSessionId\<close> in the body are the values of the render that
  created the callback: the list before the removal.
\<close>

definition deleteSession :: "failures \<Rightarrow> scoping \<Rightarrow> string \<Rightarrow> state \<times> host \<Rightarrow> state \<times> host" where
  "deleteSession fails scope ident w =
     (let st = fst w; h = snd w in
      case find (\<lambda>s. id_s s = ident) (sessions st) of
        None \<Rightarrow> w
      | Some sessionToDelete \<Rightarrow>
          let h1 = (if truthy_num (tabId sessionToDelete)
                    then close_tab fails (the (tabId sessionToDelete)) h else h);
              r = remove_session_cookies fails scope (cookies sessionToDelete) h1;
              st1 = (if fst r
                     then st\<lparr>error := Some ''Failed to remove session cookies.  Please check the console.''\<rparr>
                     else st);
              st2 = st1\<lparr>sessions := filter (\<lambda>s. id_s s \<noteq> ident) (sessions st1)\<rparr>;
              st3 = (if activeSessionId st = Some ident
                     then st2\<lparr>activeSessionId :=
                            (if length (sessions st) > 1 then Some (id_s (sessions st ! 0))
                             else None)\<rparr>
                     else st2)
          in (st3, snd r))"

subsection \<open>switchSession\<close>

definition switchSession :: "string \<Rightarrow> state \<Rightarrow> state" where
  "switchSession ident st = st\<lparr>activeSessionId := Some ident\<rparr>"

section \<open>Cookie synchronisation\<close>

subsection \<open>handleCookieManagement\<close>

text \<open>
  The first loop of the reconciliation pass: every fetched cookie whose name is not
  among the names recorded for the session before the pass is removed from the jar by
  URL and name. A rejected call leaves the loop for the \<open>catch\<close> block.
\<close>

fun remove_foreign_cookies ::
  "failures \<Rightarrow> scoping \<Rightarrow> string \<Rightarrow> string list \<Rightarrow> cookie list \<Rightarrow> host \<Rightarrow> bool \<times> host" where
  "remove_foreign_cookies fails scope url sessionCookieNames [] h = (False, h)"
| "remove_foreign_cookies fails scope url sessionCookieNames (c # cs) h =
     (if name c \<notin> set sessionCookieNames then
        (let call = CookiesRemove url (name c) in
         if rejected fails h call then (True, issue call h)
         else remove_foreign_cookies fails scope url sessionCookieNames cs
                (jar_remove scope url (name c) (issue call h)))
      else remove_foreign_cookies fails scope url sessionCookieNames cs h)"

text \<open>
  The properties passed to \<open>chrome.cookies.set\<close> for one recorded cookie: its
  attributes, with the expiry only when it is truthy.
\<close>

definition cookieDetails :: "cookie \<Rightarrow> cookie" where
  "cookieDetails c =
     c\<lparr>expirationDate := (if truthy_num (expirationDate c) then expirationDate c else None)\<rparr>"

fun set_session_cookies :: "failures \<Rightarrow> string \<Rightarrow> cookie list \<Rightarrow> host \<Rightarrow> bool \<times> host" where
  "set_session_cookies fails url [] h = (False, h)"
| "set_session_cookies fails url (c # cs) h =
     (let call = CookiesSet url (cookieDetails c) in
      if rejected fails h call then (True, issue call h)
      else set_session_cookies fails url cs (jar_set (cookieDetails c) (issue call h)))"

text \<open>
  \<open>session\<close> is looked up in the session list of the render that created the callback,
  so \<open>cookies session\<close> is the list recorded before the fetch. A tab the host does not
  know, or one without URL, ends the pass silently. The tab's URL is parsed inside the
  \<open>try\<close>: when the constructor throws, the \<open>catch\<close> block runs; otherwise the
  \<open>href\<close> of the parsed URL is what the cookie calls receive.
\<close>

definition handleCookieManagement ::
  "failures \<Rightarrow> scoping \<Rightarrow> url_parser \<Rightarrow> int \<Rightarrow> string \<Rightarrow> state \<times> host \<Rightarrow> state \<times> host" where
  "handleCookieManagement fails scope new_URL tab_id sessionId w =
     (let st = fst w; h = snd w;
          failed = (\<lambda>s. s\<lparr>error := Some ''Error managing cookies. Please check console.''\<rparr>)
      in
      case find (\<lambda>s. id_s s = sessionId) (sessions st) of
        None \<Rightarrow> w
      | Some session \<Rightarrow>
          if rejected fails h (TabsGet tab_id) then (failed st, issue (TabsGet tab_id) h)
          else
            let h1 = issue (TabsGet tab_id) h in
            (case map_of (tabs h1) tab_id of
              None \<Rightarrow> (st, h1)
            | Some None \<Rightarrow> (st, h1)
            | Some (Some tab_url) \<Rightarrow>
                if tab_url = [] then (st, h1)
                else
                  (case new_URL tab_url of
                     None \<Rightarrow> (failed st, h1)
                   | Some url \<Rightarrow>
                       if rejected fails h1 (CookiesGetAll url)
                       then (failed st, issue (CookiesGetAll url) h1)
                       else
                         let h2 = issue (CookiesGetAll url) h1;
                             currentCookies = jar_getAll scope url h2;
                             st1 = st\<lparr>sessions :=
                                     map (\<lambda>s. if id_s s = sessionId then s\<lparr>cookies := currentCookies\<rparr> else s)
                                       (sessions st)\<rparr>;
                             sessionCookieNames = map name (cookies session);
                             r1 = remove_foreign_cookies fails scope url sessionCookieNames
                                    currentCookies h2
                         in
                         if fst r1 then (failed st1, snd r1)
                         else
                           let r2 = set_session_cookies fails url (cookies session) (snd r1)
                           in if fst r2 then (failed st1, snd r2) else (st1, snd r2))))"

definition handleTabActivated ::
  "failures \<Rightarrow> scoping \<Rightarrow> url_parser \<Rightarrow> int \<Rightarrow> state \<times> host \<Rightarrow> state \<times> host" where
  "handleTabActivated fails scope new_URL tab_id w =
     (if truthy_str (activeSessionId (fst w))
      then handleCookieManagement fails scope new_URL tab_id (the (activeSessionId (fst w))) w
      else w)"

definition handleTabUpdated ::
  "failures \<Rightarrow> scoping \<Rightarrow> url_parser \<Rightarrow> int \<Rightarrow> string option \<Rightarrow> state \<times> host \<Rightarrow> state \<times> host" where
  "handleTabUpdated fails scope new_URL tab_id status w =
     (if status = Some ''complete'' then
        (if truthy_str (activeSessionId (fst w))
         then handleCookieManagement fails scope new_URL tab_id
                (the (activeSessionId (fst w))) w
         else w)
      else w)"

subsection \<open>handleTabCreated\<close>

definition handleTabCreated :: "int option \<Rightarrow> state \<Rightarrow> state" where
  "handleTabCreated tab_id st =
     (if truthy_str (activeSessionId st) then
        (case find (\<lambda>s. Some (id_s s) = activeSessionId st) (sessions st) of
           None \<Rightarrow> st
         | Some session \<Rightarrow>
             if \<not> truthy_num (tabId session) then
               st\<lparr>sessions :=
                    map (\<lambda>s. if Some (id_s s) = activeSessionId st then s\<lparr>tabId := tab_id\<rparr> else s)
                      (sessions st)\<rparr>
             else st)
      else st)"

subsection \<open>handleCookieChanged\<close>

text \<open>
  Both branches map over the whole session list; the only test inside the mapped
  function is the truthiness of \<open>activeSessionId\<close>.
\<close>

definition handleCookieChanged :: "changeInfo \<Rightarrow> state \<Rightarrow> state" where
  "handleCookieChanged ci st =
     (if removed ci then
        st\<lparr>sessions :=
             map (\<lambda>s. if truthy_str (activeSessionId st)
                       then s\<lparr>cookies := filter (\<lambda>c. name c \<noteq> name (cookie ci)) (cookies s)\<rparr>
                       else s)
               (sessions st)\<rparr>
      else
        st\<lparr>sessions :=
             map (\<lambda>s. if truthy_str (activeSessionId st) then
                         (let existingCookieIndex =
                                findIndex (\<lambda>c. name c = name (cookie ci)) (cookies s)
                          in if existingCookieIndex > - 1
                             then s\<lparr>cookies := (cookies s)[nat existingCookieIndex := cookie ci]\<rparr>
                             else s\<lparr>cookies := cookies s @ [cookie ci]\<rparr>)
                       else s)
               (sessions st)\<rparr>)"

section \<open>Persistence\<close>

text \<open>
  The session list is stored as one array under the key \<open>sessions\<close>. A session is
  written as the object with its four properties; \<open>read_session\<close> gives the session
  that a stored object is, for exactly the objects that are one.
\<close>

definition entry_of_session :: "session \<Rightarrow> stored_entry" where
  "entry_of_session s =
     Entry_Object
       \<lparr>id_field = Some (JStr (id_s s)), name_field = Some (JStr (name_s s)),
        cookies_field = Some (Cookie_Array (cookies s)), tabId_field = tabId s\<rparr>"

fun read_session :: "stored_entry \<Rightarrow> session option" where
  "read_session (Entry_Object ob) =
     (case (id_field ob, name_field ob, cookies_field ob) of
        (Some (JStr i), Some (JStr n), Some (Cookie_Array cs)) \<Rightarrow>
          Some \<lparr>id_s = i, name_s = n, tabId = tabId_field ob, cookies = cs\<rparr>
      | _ \<Rightarrow> None)"
| "read_session e = None"

text \<open>The value of \<open>s.id\<close> as an active session id: the string, if it is one.\<close>

fun id_string :: "json option \<Rightarrow> string option" where
  "id_string (Some (JStr i)) = Some i"
| "id_string v = None"

subsection \<open>loadSessions\<close>

text \<open>The filter applied to the stored array.\<close>

definition valid_session_shape :: "stored_entry \<Rightarrow> bool" where
  "valid_session_shape s =
     (truthy_entry s \<and> is_string (entry_id s) \<and> is_string (entry_name s)
      \<and> is_array (entry_cookies s))"

text \<open>
  \<open>chrome.storage.local.get({ sessions: [] })\<close> answers with the empty array when
  nothing is stored. The entries that pass the filter become the session list as they
  are. The \<open>finally\<close> block clears the loading flag on every path.
\<close>

definition loadSessions :: "failures \<Rightarrow> state \<times> host \<Rightarrow> state \<times> host" where
  "loadSessions fails w =
     (let st = fst w; h = snd w; h1 = issue StorageGet h in
      if rejected fails h StorageGet then
        (st\<lparr>error := Some ''Failed to load sessions. Please check console.'',
            loading := False\<rparr>, h1)
      else
        case (case storage h of None \<Rightarrow> Stored_Entries [] | Some v \<Rightarrow> v) of
          Stored_Entries entries \<Rightarrow>
            let validatedSessions = filter valid_session_shape entries;
                st1 = st\<lparr>sessions := List.map_filter read_session validatedSessions\<rparr>;
                st2 = (if length validatedSessions > 0
                       then st1\<lparr>activeSessionId := id_string (entry_id (validatedSessions ! 0))\<rparr>
                       else st1)
            in (st2\<lparr>loading := False\<rparr>, h1)
        | _ \<Rightarrow> (st\<lparr>loading := False\<rparr>, h1))"

subsection \<open>saveSessions\<close>

text \<open>The function \<open>saveSessions\<close> writes the whole list; the effect around it calls
  it once the initial load has finished.\<close>

definition saveSessions :: "failures \<Rightarrow> state \<times> host \<Rightarrow> state \<times> host" where
  "saveSessions fails w =
     (let st = fst w; h = snd w; call = StorageSet (map entry_of_session (sessions st)) in
      if rejected fails h call
      then (st\<lparr>error := Some ''Failed to save sessions. Please check console.''\<rparr>,
            issue call h)
      else (st, (issue call h)\<lparr>storage :=
                   Some (Stored_Entries (map entry_of_session (sessions st)))\<rparr>))"

definition saveSessions_effect :: "failures \<Rightarrow> state \<times> host \<Rightarrow> state \<times> host" where
  "saveSessions_effect fails w = (if \<not> loading (fst w) then saveSessions fails w else w)"

section \<open>Predicates of the specification\<close>

text \<open>The active session id, if set, is the id of a session in the list.\<close>

definition active_exists :: "state \<Rightarrow> bool" where
  "active_exists st =
     (case activeSessionId st of None \<Rightarrow> True | Some a \<Rightarrow> a \<in> set (map id_s (sessions st)))"


section \<open>Concrete states\<close>

text \<open>A host on which no call fails, one on which opening a tab fails, and a small
  state with two sessions, the first of them active.\<close>

definition no_failures :: failures where
  "no_failures = (\<lambda>n c. False)"

definition tab_creation_fails :: failures where
  "tab_creation_fails = (\<lambda>n c. c = TabsCreate)"

definition storage_read_fails :: failures where
  "storage_read_fails = (\<lambda>n c. c = StorageGet)"

definition any_scope :: scoping where
  "any_scope = (\<lambda>url k. True)"

text \<open>A parser that knows one address and gives it its trailing slash.\<close>

definition ex_new_URL :: url_parser where
  "ex_new_URL s = (if s = ''https://example.com'' then Some ''https://example.com/'' else None)"

definition ex_cookie :: "string \<Rightarrow> string \<Rightarrow> string \<Rightarrow> cookie" where
  "ex_cookie n v d =
     \<lparr>name = n, value_c = v, domain = d, path = ''/'', secure = False, httpOnly = False,
      sameSite = ''lax'', expirationDate = None\<rparr>"

definition ex_alice :: session where
  "ex_alice = \<lparr>id_s = ''a'', name_s = ''Alice'', tabId = None, cookies = []\<rparr>"

definition ex_bob :: session where
  "ex_bob = \<lparr>id_s = ''b'', name_s = ''Bob'', tabId = None, cookies = []\<rparr>"

definition ex_state :: state where
  "ex_state =
     \<lparr>sessions = [ex_alice, ex_bob], activeSessionId = Some ''a'', newSessionName = [],
      loading = False, error = None\<rparr>"

definition ex_host :: host where
  "ex_host = \<lparr>jar = [], tabs = [], next_tab = 1, storage = None, calls = []\<rparr>"

text \<open>A stored array with a \<open>null\<close> entry, a well-formed session and an object whose
  id is a number; and a state whose first session has recorded three cookies, two of
  them named \<open>sid\<close> on different domains.\<close>

definition ex_stored :: stored_value where
  "ex_stored =
     Stored_Entries
       [Entry_Scalar SNull,
        Entry_Object \<lparr>id_field = Some (JStr ''a''), name_field = Some (JStr ''Alice''),
                      cookies_field = Some (Cookie_Array []), tabId_field = None\<rparr>,
        Entry_Object \<lparr>id_field = Some (JNum 3), name_field = Some (JStr ''Carol''),
                      cookies_field = Some (Cookie_Array []), tabId_field = None\<rparr>]"

definition ex_recorded :: state where
  "ex_recorded =
     ex_state\<lparr>sessions :=
       [ex_alice\<lparr>cookies := [ex_cookie ''theme'' ''dark'' ''example.com'',
                              ex_cookie ''sid'' ''1'' ''www.example.com'',
                              ex_cookie ''sid'' ''2'' ''.example.com'']\<rparr>,
        ex_bob]\<rparr>"

text \<open>A state whose first session has recorded the cookie \<open>sid\<close> twice for the same
  domain and path with different values, and a host with one open tab and two live
  cookies.\<close>

definition ex_dup :: state where
  "ex_dup =
     ex_state\<lparr>sessions :=
       [ex_alice\<lparr>cookies := [ex_cookie ''sid'' ''1'' ''example.com'',
                              ex_cookie ''sid'' ''2'' ''example.com'']\<rparr>,
        ex_bob]\<rparr>"

definition ex_tab_host :: host where
  "ex_tab_host =
     ex_host\<lparr>jar := [ex_cookie ''other'' ''x'' ''example.com'',
                     ex_cookie ''theme'' ''light'' ''example.com''],
             tabs := [(7, Some ''https://example.com''), (8, Some ''not a url'')]\<rparr>"

lemmas ex_defs =
  no_failures_def tab_creation_fails_def storage_read_fails_def any_scope_def
  ex_new_URL_def ex_cookie_def ex_alice_def ex_bob_def ex_state_def ex_host_def

section \<open>Properties of session management\<close>

subsection \<open>Auxiliary facts\<close>

lemma find_id_None: "ident \<notin> set (map id_s xs) \<Longrightarrow> find (\<lambda>s. id_s s = ident) xs = None"
  by (induction xs) auto

lemma length_trim_le: "length (trim s) \<le> length s"
  unfolding trim_def
  by (metis length_dropWhile_le length_rev order_trans)

lemma trim_example: "trim ''  Bob '' = ''Bob''"
  by (simp add: trim_def is_ws_def)

subsection \<open>Deleting an unknown session\<close>

text \<open>
  C9: for an id that no session of the list carries, \<open>deleteSession\<close> changes nothing:
  the component state (session list, active selection) is returned as it was, and so is
  the host, whose call log therefore holds no new tab-close or cookie-remove call.
\<close>

theorem deleteSession_unknown_id:
  assumes "ident \<notin> set (map id_s (sessions st))"
  shows "deleteSession fails scope ident (st, h) = (st, h)"
  using assms by (simp add: deleteSession_def find_id_None)

theorem deleteSession_unknown_id_witness:
  "''zz'' \<notin> set (map id_s (sessions ex_state))
   \<and> deleteSession no_failures any_scope ''zz'' (ex_state, ex_host) = (ex_state, ex_host)"
proof -
  have h: "''zz'' \<notin> set (map id_s (sessions ex_state))"
    by (simp add: ex_defs)
  from deleteSession_unknown_id [OF h] h show ?thesis by simp
qed

subsection \<open>Rejected names\<close>

text \<open>
  C7: a name that is empty after trimming, that is longer than 20 characters (before or
  after trimming), or whose trimmed form is the name of an existing session, is
  rejected: \<open>createSession\<close> sets one of the three validation messages and changes
  nothing else, so the session list, the active selection and all recorded cookies are
  as before, and the host is not called.
\<close>

theorem createSession_invalid_name:
  assumes "trim nm = [] \<or> length nm > MAX_SESSION_NAME_LENGTH
           \<or> length (trim nm) > MAX_SESSION_NAME_LENGTH
           \<or> trim nm \<in> set (map name_s (sessions st))"
  shows "\<exists>msg \<in> {''Session name cannot be empty.'',
                   ''A session with this name already exists.'',
                   ''Session name cannot be longer than 20 characters.''}.
           createSession fails new_id nm (st, h) = (st\<lparr>error := Some msg\<rparr>, h)"
proof -
  have len: "length (trim nm) > MAX_SESSION_NAME_LENGTH \<Longrightarrow> length nm > MAX_SESSION_NAME_LENGTH"
    using length_trim_le [of nm] by simp
  have ex_iff: "list_ex (\<lambda>s. name_s s = trim nm) (sessions st)
                \<longleftrightarrow> trim nm \<in> set (map name_s (sessions st))"
    by (force simp: list_ex_iff)
  consider (empty) "trim nm = []"
    | (dup) "trim nm \<noteq> []" "trim nm \<in> set (map name_s (sessions st))"
    | (long) "trim nm \<noteq> []" "trim nm \<notin> set (map name_s (sessions st))"
        "length nm > MAX_SESSION_NAME_LENGTH"
    using assms len by blast
  then show ?thesis
  proof cases
    case empty
    then show ?thesis by (simp add: createSession_def)
  next
    case dup
    then show ?thesis using ex_iff by (simp add: createSession_def del: set_map)
  next
    case long
    then show ?thesis using ex_iff by (simp add: createSession_def del: set_map)
  qed
qed

theorem createSession_invalid_name_witness:
  "(trim ''  Bob '' = [] \<or> length ''  Bob '' > MAX_SESSION_NAME_LENGTH
     \<or> length (trim ''  Bob '') > MAX_SESSION_NAME_LENGTH
     \<or> trim ''  Bob '' \<in> set (map name_s (sessions ex_state)))
   \<and> createSession no_failures ''u1'' ''  Bob '' (ex_state, ex_host)
       = (ex_state\<lparr>error := Some ''A session with this name already exists.''\<rparr>, ex_host)"
proof -
  have h: "trim ''  Bob '' = [] \<or> length ''  Bob '' > MAX_SESSION_NAME_LENGTH
     \<or> length (trim ''  Bob '') > MAX_SESSION_NAME_LENGTH
     \<or> trim ''  Bob '' \<in> set (map name_s (sessions ex_state))"
    by (simp add: trim_example ex_defs)
  from createSession_invalid_name [OF h, of no_failures "''u1''" ex_host] h
  show ?thesis
    by (simp add: trim_example createSession_def ex_defs)
qed

subsection \<open>Accepted names\<close>

lemma list_ex_name: "list_ex (\<lambda>s. name_s s = n) xs \<longleftrightarrow> n \<in> set (map name_s xs)"
  by (force simp: list_ex_iff)

lemma createSession_accepted:
  assumes "trim nm \<noteq> []" "length nm \<le> MAX_SESSION_NAME_LENGTH"
    "trim nm \<notin> set (map name_s (sessions st))" "\<not> rejected fails h TabsCreate"
  shows "fst (createSession fails new_id nm (st, h)) =
     st\<lparr>sessions := map (\<lambda>s. if id_s s = new_id then s\<lparr>tabId := Some (next_tab h)\<rparr> else s)
                       (sessions st @ [\<lparr>id_s = new_id, name_s = trim nm, tabId = None, cookies = []\<rparr>]),
        activeSessionId := Some new_id, newSessionName := [], error := None\<rparr>"
  using assms by (simp add: createSession_def list_ex_name issue_def Let_def del: set_map)

text \<open>
  C6 (as amended): for a name that is non-empty after trimming, at most 20 characters
  long and different, once trimmed, from the name of every existing session, and when
  the host does not reject the creation of the tab, \<open>createSession\<close> lengthens the
  session list by exactly one; the existing sessions keep their id, name and cookies,
  the appended session carries the new id, the trimmed name and no cookies, and it is
  the active session.
\<close>

theorem createSession_valid_name:
  assumes "trim nm \<noteq> []" and "length nm \<le> MAX_SESSION_NAME_LENGTH"
    and "trim nm \<notin> set (map name_s (sessions st))"
    and "\<not> rejected fails h TabsCreate"
  shows "length (sessions (fst (createSession fails new_id nm (st, h)))) = length (sessions st) + 1
    \<and> map (\<lambda>s. (id_s s, name_s s, cookies s)) (sessions (fst (createSession fails new_id nm (st, h))))
        = map (\<lambda>s. (id_s s, name_s s, cookies s)) (sessions st) @ [(new_id, trim nm, [])]
    \<and> activeSessionId (fst (createSession fails new_id nm (st, h))) = Some new_id"
proof -
  have keep: "(\<lambda>s. (id_s s, name_s s, cookies s)) \<circ> (\<lambda>s. if id_s s = new_id then s\<lparr>tabId := t\<rparr> else s)
              = (\<lambda>s. (id_s s, name_s s, cookies s))" for t
    by (rule ext) simp
  show ?thesis
    unfolding createSession_accepted [OF assms]
    by (simp add: keep)
qed

theorem createSession_valid_name_witness:
  "trim ''  Bob '' \<noteq> [] \<and> length ''  Bob '' \<le> MAX_SESSION_NAME_LENGTH
   \<and> trim ''  Bob '' \<notin> set (map name_s (sessions (ex_state\<lparr>sessions := [ex_alice]\<rparr>)))
   \<and> \<not> rejected no_failures ex_host TabsCreate
   \<and> length (sessions (fst (createSession no_failures ''u1'' ''  Bob ''
         (ex_state\<lparr>sessions := [ex_alice]\<rparr>, ex_host)))) = 2
   \<and> map (\<lambda>s. (id_s s, name_s s, cookies s))
        (sessions (fst (createSession no_failures ''u1'' ''  Bob ''
           (ex_state\<lparr>sessions := [ex_alice]\<rparr>, ex_host))))
      = [(''a'', ''Alice'', []), (''u1'', ''Bob'', [])]
   \<and> activeSessionId (fst (createSession no_failures ''u1'' ''  Bob ''
         (ex_state\<lparr>sessions := [ex_alice]\<rparr>, ex_host))) = Some ''u1''"
proof -
  have h1: "trim ''  Bob '' \<noteq> []" by (simp add: trim_example)
  have h2: "length ''  Bob '' \<le> MAX_SESSION_NAME_LENGTH"
    by (simp add: MAX_SESSION_NAME_LENGTH_def)
  have h3: "trim ''  Bob '' \<notin> set (map name_s (sessions (ex_state\<lparr>sessions := [ex_alice]\<rparr>)))"
    by (simp add: trim_example ex_defs)
  have h4: "\<not> rejected no_failures ex_host TabsCreate"
    by (simp add: rejected_def no_failures_def)
  from createSession_valid_name [OF h1 h2 h3 h4, of "''u1''"] h1 h2 h3 h4
  show ?thesis by (simp add: trim_example ex_defs)
qed

text \<open>
  The claim C6 as it is worded fails when the host rejects the creation of the tab:
  the name \<open>Carol\<close> passes all three checks, yet the call ends with the list at its old
  length and with no active session.
\<close>

theorem createSession_tab_failure_counterexample:
  "trim ''Carol'' \<noteq> [] \<and> length ''Carol'' \<le> MAX_SESSION_NAME_LENGTH
   \<and> trim ''Carol'' \<notin> set (map name_s (sessions ex_state))
   \<and> length (sessions (fst (createSession tab_creation_fails ''u1'' ''Carol'' (ex_state, ex_host))))
       \<noteq> length (sessions ex_state) + 1
   \<and> activeSessionId (fst (createSession tab_creation_fails ''u1'' ''Carol'' (ex_state, ex_host)))
       \<noteq> Some ''u1''"
  by (simp add: createSession_def trim_def is_ws_def MAX_SESSION_NAME_LENGTH_def rejected_def
      issue_def ex_defs)

subsection \<open>Failure of the tab creation\<close>

text \<open>
  C3 (the code at the failing input): the name \<open>Carol\<close> passes validation and the host
  rejects the creation of the tab. The session is rolled back and the active selection
  cleared, but the error message set in the \<open>catch\<close> block is overwritten by the
  unconditional \<open>setError(null)\<close> that follows it: the call ends with no error message.
\<close>

theorem createSession_tab_failure_clears_error:
  "createSession tab_creation_fails ''u1'' ''Carol'' (ex_state, ex_host)
     = (ex_state\<lparr>activeSessionId := None, error := None\<rparr>, ex_host\<lparr>calls := [TabsCreate]\<rparr>)"
  by (simp add: createSession_def trim_def is_ws_def MAX_SESSION_NAME_LENGTH_def rejected_def
      issue_def ex_defs)

subsection \<open>Deleting the active session\<close>

text \<open>
  C2 (the code at the failing input): deleting the first session of a list of two
  while it is active leaves the other session in the list, and the active id is the id
  of the deleted session, read from position 0 of the list before the removal.
\<close>

theorem deleteSession_first_active_dangling:
  "deleteSession no_failures any_scope ''a'' (ex_state, ex_host)
     = (ex_state\<lparr>sessions := [ex_bob], activeSessionId := Some ''a''\<rparr>, ex_host)"
  by (simp add: deleteSession_def truthy_num_def ex_defs)

section \<open>Properties of the cookie-change handler\<close>

text \<open>
  C1 (the code at the failing input): with the first session active, a notification
  that a cookie was set adds the cookie to the recorded list of the second session as
  well.
\<close>

theorem handleCookieChanged_updates_inactive_session:
  "sessions (handleCookieChanged
       \<lparr>removed = False, cookie = ex_cookie ''sid'' ''1'' ''example.com''\<rparr> ex_state)
     = [ex_alice\<lparr>cookies := [ex_cookie ''sid'' ''1'' ''example.com'']\<rparr>,
        ex_bob\<lparr>cookies := [ex_cookie ''sid'' ''1'' ''example.com'']\<rparr>]"
  by (simp add: handleCookieChanged_def truthy_str_def ex_defs)

lemma findIndex_first:
  assumes "\<forall>c\<in>set pre. \<not> P c" and "P x"
  shows "findIndex P (pre @ x # post) = int (length pre)"
  using assms by (induction pre) (auto simp: Let_def)

text \<open>
  C10: while an active session id is set, the handler matches recorded cookies by name
  alone. A removal notification for a cookie \<open>k\<close> leaves in each session list exactly
  the cookies whose name differs from the name of \<open>k\<close>, so none named like \<open>k\<close>
  remains, whatever its domain or path. A set notification for \<open>k\<close> puts \<open>k\<close> in the
  place of the first recorded cookie that has the name of \<open>k\<close>; nothing is asked of
  the domain or path of the cookie replaced.
\<close>

theorem handleCookieChanged_matches_by_name:
  assumes "truthy_str (activeSessionId st)" and "i < length (sessions st)"
  shows "cookies (sessions (handleCookieChanged \<lparr>removed = True, cookie = k\<rparr> st) ! i)
              = filter (\<lambda>c. name c \<noteq> name k) (cookies (sessions st ! i))
       \<and> name k \<notin> set (map name
              (cookies (sessions (handleCookieChanged \<lparr>removed = True, cookie = k\<rparr> st) ! i)))
       \<and> (cookies (sessions st ! i) = pre @ old # post
            \<and> (\<forall>c\<in>set pre. name c \<noteq> name k) \<and> name old = name k \<longrightarrow>
          cookies (sessions (handleCookieChanged \<lparr>removed = False, cookie = k\<rparr> st) ! i)
              = pre @ k # post)"
proof (intro conjI impI)
  show rm: "cookies (sessions (handleCookieChanged \<lparr>removed = True, cookie = k\<rparr> st) ! i)
              = filter (\<lambda>c. name c \<noteq> name k) (cookies (sessions st ! i))"
    using assms by (simp add: handleCookieChanged_def)
  show "name k \<notin> set (map name
          (cookies (sessions (handleCookieChanged \<lparr>removed = True, cookie = k\<rparr> st) ! i)))"
    unfolding rm by auto
next
  assume a: "cookies (sessions st ! i) = pre @ old # post
            \<and> (\<forall>c\<in>set pre. name c \<noteq> name k) \<and> name old = name k"
  then have idx: "findIndex (\<lambda>c. name c = name k) (cookies (sessions st ! i)) = int (length pre)"
    by (simp add: findIndex_first)
  show "cookies (sessions (handleCookieChanged \<lparr>removed = False, cookie = k\<rparr> st) ! i)
          = pre @ k # post"
    using assms a idx by (simp add: handleCookieChanged_def Let_def)
qed

theorem handleCookieChanged_matches_by_name_witness:
  "truthy_str (activeSessionId ex_recorded) \<and> 0 < length (sessions ex_recorded)
   \<and> cookies (sessions ex_recorded ! 0)
       = [ex_cookie ''theme'' ''dark'' ''example.com'']
           @ ex_cookie ''sid'' ''1'' ''www.example.com'' # [ex_cookie ''sid'' ''2'' ''.example.com'']
   \<and> name (ex_cookie ''theme'' ''dark'' ''example.com'') \<noteq> name (ex_cookie ''sid'' ''9'' ''other.org'')
   \<and> name (ex_cookie ''sid'' ''1'' ''www.example.com'') = name (ex_cookie ''sid'' ''9'' ''other.org'')
   \<and> domain (ex_cookie ''sid'' ''1'' ''www.example.com'') \<noteq> domain (ex_cookie ''sid'' ''9'' ''other.org'')
   \<and> cookies (sessions (handleCookieChanged
         \<lparr>removed = True, cookie = ex_cookie ''sid'' ''9'' ''other.org''\<rparr> ex_recorded) ! 0)
       = [ex_cookie ''theme'' ''dark'' ''example.com'']
   \<and> cookies (sessions (handleCookieChanged
         \<lparr>removed = False, cookie = ex_cookie ''sid'' ''9'' ''other.org''\<rparr> ex_recorded) ! 0)
       = [ex_cookie ''theme'' ''dark'' ''example.com'', ex_cookie ''sid'' ''9'' ''other.org'',
          ex_cookie ''sid'' ''2'' ''.example.com'']"
proof -
  have h1: "truthy_str (activeSessionId ex_recorded)"
    by (simp add: truthy_str_def ex_recorded_def ex_defs)
  have h2: "0 < length (sessions ex_recorded)"
    by (simp add: ex_recorded_def ex_defs)
  have h3: "cookies (sessions ex_recorded ! 0)
       = [ex_cookie ''theme'' ''dark'' ''example.com'']
           @ ex_cookie ''sid'' ''1'' ''www.example.com'' # [ex_cookie ''sid'' ''2'' ''.example.com'']"
    by (simp add: ex_recorded_def ex_defs)
  have h4: "\<forall>c\<in>set [ex_cookie ''theme'' ''dark'' ''example.com''].
              name c \<noteq> name (ex_cookie ''sid'' ''9'' ''other.org'')"
    by (simp add: ex_defs)
  have h5: "name (ex_cookie ''sid'' ''1'' ''www.example.com'')
              = name (ex_cookie ''sid'' ''9'' ''other.org'')"
    by (simp add: ex_defs)
  from handleCookieChanged_matches_by_name [OF h1 h2,
      of "ex_cookie ''sid'' ''9'' ''other.org''" "[ex_cookie ''theme'' ''dark'' ''example.com'']"
         "ex_cookie ''sid'' ''1'' ''www.example.com''" "[ex_cookie ''sid'' ''2'' ''.example.com'']"]
    h1 h2 h3 h4 h5
  show ?thesis
    by (simp add: ex_recorded_def ex_defs)
qed

section \<open>Properties of the reconciliation pass\<close>

subsection \<open>The two loops when no call is rejected\<close>

lemma nofail_rejected: "(\<forall>n c. \<not> fails n c) \<Longrightarrow> \<not> rejected fails h c"
  by (simp add: rejected_def)

lemma remove_foreign_fst:
  assumes "\<forall>n c. \<not> fails n c"
  shows "fst (remove_foreign_cookies fails scope url names cs h) = False"
  by (induction cs arbitrary: h) (simp_all add: nofail_rejected [OF assms] Let_def)

lemma remove_foreign_calls:
  assumes "\<forall>n c. \<not> fails n c"
  shows "calls (snd (remove_foreign_cookies fails scope url names cs h))
           = calls h @ map (\<lambda>c. CookiesRemove url (name c)) (filter (\<lambda>c. name c \<notin> set names) cs)"
  by (induction cs arbitrary: h)
     (simp_all add: nofail_rejected [OF assms] Let_def jar_remove_def issue_def)

lemma remove_foreign_jar:
  assumes "\<forall>n c. \<not> fails n c"
  shows "set (jar (snd (remove_foreign_cookies fails scope url names cs h)))
           = {k \<in> set (jar h). \<not> (scope url k \<and> name k \<notin> set names \<and> name k \<in> name ` set cs)}"
proof (induction cs arbitrary: h)
  case Nil
  then show ?case by simp
next
  case (Cons c cs)
  show ?case
  proof (cases "name c \<in> set names")
    case True
    then show ?thesis by (auto simp: Cons.IH)
  next
    case False
    then show ?thesis
      by (auto simp: Cons.IH nofail_rejected [OF assms] Let_def jar_remove_def issue_def)
  qed
qed

lemma set_cookies_fst:
  assumes "\<forall>n c. \<not> fails n c"
  shows "fst (set_session_cookies fails url cs h) = False"
  by (induction cs arbitrary: h) (simp_all add: nofail_rejected [OF assms] Let_def)

lemma set_cookies_calls:
  assumes "\<forall>n c. \<not> fails n c"
  shows "calls (snd (set_session_cookies fails url cs h))
           = calls h @ map (\<lambda>c. CookiesSet url (cookieDetails c)) cs"
  by (induction cs arbitrary: h)
     (simp_all add: nofail_rejected [OF assms] Let_def jar_set_def issue_def)

lemma set_cookies_subset:
  assumes "\<forall>n c. \<not> fails n c"
  shows "set (jar (snd (set_session_cookies fails url cs h)))
           \<subseteq> set (jar h) \<union> cookieDetails ` set cs"
proof (induction cs arbitrary: h)
  case Nil
  then show ?case by simp
next
  case (Cons c cs)
  have "set (jar (snd (set_session_cookies fails url cs (jar_set (cookieDetails c) (issue (CookiesSet url (cookieDetails c)) h)))))
          \<subseteq> set (jar (jar_set (cookieDetails c) (issue (CookiesSet url (cookieDetails c)) h))) \<union> cookieDetails ` set cs"
    by (rule Cons.IH)
  also have "\<dots> \<subseteq> set (jar h) \<union> cookieDetails ` set (c # cs)"
    by (auto simp: jar_set_def issue_def)
  finally show ?case
    by (simp add: nofail_rejected [OF assms] Let_def)
qed

lemma cookie_key_details [simp]: "cookie_key (cookieDetails c) = cookie_key c"
  by (simp add: cookie_key_def cookieDetails_def)

lemma set_cookies_keeps:
  assumes "\<forall>n c. \<not> fails n c"
    and "x \<in> set (jar h)" and "\<forall>k\<in>set cs. cookie_key k \<noteq> cookie_key x"
  shows "x \<in> set (jar (snd (set_session_cookies fails url cs h)))"
  using assms(2,3)
proof (induction cs arbitrary: h)
  case Nil
  then show ?case by simp
next
  case (Cons c cs)
  have "x \<in> set (jar (jar_set (cookieDetails c) (issue (CookiesSet url (cookieDetails c)) h)))"
    using Cons.prems by (auto simp: jar_set_def issue_def)
  moreover have "\<forall>k\<in>set cs. cookie_key k \<noteq> cookie_key x"
    using Cons.prems by simp
  ultimately have "x \<in> set (jar (snd (set_session_cookies fails url cs
        (jar_set (cookieDetails c) (issue (CookiesSet url (cookieDetails c)) h)))))"
    by (rule Cons.IH)
  then show ?case
    by (simp add: nofail_rejected [OF assms(1)] Let_def)
qed

lemma set_cookies_last_wins:
  assumes "\<forall>n c. \<not> fails n c"
    and "\<forall>k\<in>set post. cookie_key k \<noteq> cookie_key c"
  shows "cookieDetails c \<in> set (jar (snd (set_session_cookies fails url (pre @ c # post) h)))"
proof (induction pre arbitrary: h)
  case Nil
  have "cookieDetails c \<in> set (jar (jar_set (cookieDetails c) (issue (CookiesSet url (cookieDetails c)) h)))"
    by (simp add: jar_set_def)
  moreover have "\<forall>k\<in>set post. cookie_key k \<noteq> cookie_key (cookieDetails c)"
    using assms(2) by simp
  ultimately have "cookieDetails c \<in> set (jar (snd (set_session_cookies fails url post
        (jar_set (cookieDetails c) (issue (CookiesSet url (cookieDetails c)) h)))))"
    by (rule set_cookies_keeps [OF assms(1)])
  then show ?case
    by (simp add: nofail_rejected [OF assms(1)] Let_def)
next
  case (Cons p pre)
  show ?case
    by (simp add: nofail_rejected [OF assms(1)] Let_def Cons.IH)
qed

subsection \<open>The whole pass\<close>

lemma handleCookieManagement_pass:
  assumes nofail: "\<forall>n c. \<not> fails n c"
    and found: "find (\<lambda>s. id_s s = sessionId) (sessions st) = Some session"
    and tab: "map_of (tabs h) tab_id = Some (Some tab_url)" and nonempty: "tab_url \<noteq> []"
    and parsed: "new_URL tab_url = Some url"
  shows "handleCookieManagement fails scope new_URL tab_id sessionId (st, h) =
     (st\<lparr>sessions := map (\<lambda>s. if id_s s = sessionId then s\<lparr>cookies := jar_getAll scope url h\<rparr> else s)
                        (sessions st)\<rparr>,
      snd (set_session_cookies fails url (cookies session)
        (snd (remove_foreign_cookies fails scope url (map name (cookies session))
           (jar_getAll scope url h) (issue (CookiesGetAll url) (issue (TabsGet tab_id) h))))))"
proof -
  have g: "jar_getAll scope url (issue c1 (issue c2 h)) = jar_getAll scope url h" for c1 c2
    by (simp add: jar_getAll_def issue_def)
  have t: "tabs (issue c h) = tabs h" for c
    by (simp add: issue_def)
  show ?thesis
    using found tab nonempty parsed
    by (simp add: handleCookieManagement_def nofail_rejected [OF nofail] Let_def g t
        remove_foreign_fst [OF nofail] set_cookies_fst [OF nofail])
qed

text \<open>When the tab's URL does not parse, the pass ends in the \<open>catch\<close> block after
  the tab lookup, with nothing fetched, removed or set.\<close>

lemma handleCookieManagement_unparsed:
  assumes "\<not> rejected fails h (TabsGet tab_id)"
    and "find (\<lambda>s. id_s s = sessionId) (sessions st) = Some session"
    and "map_of (tabs h) tab_id = Some (Some tab_url)" and "tab_url \<noteq> []"
    and "new_URL tab_url = None"
  shows "handleCookieManagement fails scope new_URL tab_id sessionId (st, h) =
     (st\<lparr>error := Some ''Error managing cookies. Please check console.''\<rparr>,
      issue (TabsGet tab_id) h)"
  using assms by (simp add: handleCookieManagement_def Let_def issue_def)

text \<open>
  C4 (as amended): when the session is found, the tab has a URL that parses, and the
  host rejects no call, the pass ends without error message and
  \<^item> every session with the given id records the cookies fetched for the parsed URL;
  \<^item> the calls issued are, in this order, the tab lookup, the fetch, one removal for
    every fetched cookie whose name is not among the names recorded before the pass,
    and one set call for every cookie recorded before the pass, with its attributes
    and with its expiry when that is present and not zero;
  \<^item> every fetched cookie whose name was not among the recorded names is absent from
    the jar afterwards;
  \<^item> every cookie recorded before the pass that no later cookie of the recorded list
    equals in name, domain and path is in the jar afterwards, with the attributes set.
\<close>

theorem reconciliation_pass:
  assumes nofail: "\<forall>n c. \<not> fails n c"
    and found: "find (\<lambda>s. id_s s = sessionId) (sessions st) = Some session"
    and tab: "map_of (tabs h) tab_id = Some (Some tab_url)" and nonempty: "tab_url \<noteq> []"
    and parsed: "new_URL tab_url = Some url"
  shows "sessions (fst (handleCookieManagement fails scope new_URL tab_id sessionId (st, h)))
           = map (\<lambda>s. if id_s s = sessionId then s\<lparr>cookies := jar_getAll scope url h\<rparr> else s)
               (sessions st)
       \<and> error (fst (handleCookieManagement fails scope new_URL tab_id sessionId (st, h)))
           = error st
       \<and> calls (snd (handleCookieManagement fails scope new_URL tab_id sessionId (st, h)))
           = calls h @ [TabsGet tab_id, CookiesGetAll url]
             @ map (\<lambda>c. CookiesRemove url (name c))
                 (filter (\<lambda>c. name c \<notin> set (map name (cookies session))) (jar_getAll scope url h))
             @ map (\<lambda>c. CookiesSet url (cookieDetails c)) (cookies session)
       \<and> (k \<in> set (jar_getAll scope url h) \<and> name k \<notin> set (map name (cookies session))
            \<longrightarrow> k \<notin> set (jar (snd (handleCookieManagement fails scope new_URL tab_id sessionId
                                      (st, h)))))
       \<and> (cookies session = pre @ c # post \<and> (\<forall>x\<in>set post. cookie_key x \<noteq> cookie_key c)
            \<longrightarrow> cookieDetails c
                  \<in> set (jar (snd (handleCookieManagement fails scope new_URL tab_id sessionId
                                    (st, h)))))"
proof -
  let ?R = "handleCookieManagement fails scope new_URL tab_id sessionId (st, h)"
  let ?h2 = "issue (CookiesGetAll url) (issue (TabsGet tab_id) h)"
  let ?r1 = "remove_foreign_cookies fails scope url (map name (cookies session))
               (jar_getAll scope url h) ?h2"
  let ?r2 = "set_session_cookies fails url (cookies session) (snd ?r1)"
  note pass = handleCookieManagement_pass [where new_URL = new_URL and scope = scope,
      OF nofail found tab nonempty parsed]
  have c2: "calls ?h2 = calls h @ [TabsGet tab_id, CookiesGetAll url]"
    and j2: "jar ?h2 = jar h"
    by (simp_all add: issue_def)
  have 1: "sessions (fst ?R)
           = map (\<lambda>s. if id_s s = sessionId then s\<lparr>cookies := jar_getAll scope url h\<rparr> else s)
               (sessions st)"
    and 2: "error (fst ?R) = error st"
    by (simp_all add: pass)
  have 3: "calls (snd ?R)
           = calls h @ [TabsGet tab_id, CookiesGetAll url]
             @ map (\<lambda>c. CookiesRemove url (name c))
                 (filter (\<lambda>c. name c \<notin> set (map name (cookies session))) (jar_getAll scope url h))
             @ map (\<lambda>c. CookiesSet url (cookieDetails c)) (cookies session)"
    by (simp add: pass set_cookies_calls [OF nofail] remove_foreign_calls [OF nofail] c2)
  have 4: "k \<notin> set (jar (snd ?R))"
    if k: "k \<in> set (jar_getAll scope url h)" "name k \<notin> set (map name (cookies session))"
  proof
    assume "k \<in> set (jar (snd ?R))"
    then have "k \<in> set (jar (snd ?r2))" by (simp add: pass)
    with set_cookies_subset [OF nofail, where url = url and cs = "cookies session"
        and h = "snd ?r1"]
    have "k \<in> set (jar (snd ?r1)) \<or> k \<in> cookieDetails ` set (cookies session)" by blast
    then show False
    proof
      assume "k \<in> set (jar (snd ?r1))"
      then show False
        using k by (auto simp: remove_foreign_jar [OF nofail] jar_getAll_def j2)
    next
      assume "k \<in> cookieDetails ` set (cookies session)"
      then obtain c' where "c' \<in> set (cookies session)" "k = cookieDetails c'" by blast
      then have "name k \<in> set (map name (cookies session))"
        by (auto simp: cookieDetails_def)
      with k(2) show False by contradiction
    qed
  qed
  have 5: "cookieDetails c \<in> set (jar (snd ?R))"
    if "cookies session = pre @ c # post" "\<forall>x\<in>set post. cookie_key x \<noteq> cookie_key c"
    using set_cookies_last_wins [OF nofail that(2), where url = url and pre = pre
        and h = "snd ?r1"] that(1)
    by (simp add: pass)
  from 1 2 3 4 5 show ?thesis by blast
qed

theorem reconciliation_pass_witness:
  "(\<forall>n c. \<not> no_failures n c)
   \<and> find (\<lambda>s. id_s s = ''a'') (sessions ex_recorded) = Some (sessions ex_recorded ! 0)
   \<and> map_of (tabs ex_tab_host) 7 = Some (Some ''https://example.com'')
   \<and> ''https://example.com'' \<noteq> []
   \<and> ex_new_URL ''https://example.com'' = Some ''https://example.com/''
   \<and> ex_cookie ''other'' ''x'' ''example.com''
        \<in> set (jar_getAll any_scope ''https://example.com/'' ex_tab_host)
   \<and> name (ex_cookie ''other'' ''x'' ''example.com'')
        \<notin> set (map name (cookies (sessions ex_recorded ! 0)))
   \<and> cookies (sessions ex_recorded ! 0)
        = [ex_cookie ''theme'' ''dark'' ''example.com'']
            @ ex_cookie ''sid'' ''1'' ''www.example.com'' # [ex_cookie ''sid'' ''2'' ''.example.com'']
   \<and> cookie_key (ex_cookie ''sid'' ''2'' ''.example.com'')
        \<noteq> cookie_key (ex_cookie ''sid'' ''1'' ''www.example.com'')
   \<and> ex_cookie ''other'' ''x'' ''example.com''
        \<notin> set (jar (snd (handleCookieManagement no_failures any_scope ex_new_URL 7 ''a''
                           (ex_recorded, ex_tab_host))))
   \<and> cookieDetails (ex_cookie ''sid'' ''1'' ''www.example.com'')
        \<in> set (jar (snd (handleCookieManagement no_failures any_scope ex_new_URL 7 ''a''
                           (ex_recorded, ex_tab_host))))
   \<and> error (fst (handleCookieManagement no_failures any_scope ex_new_URL 7 ''a''
                    (ex_recorded, ex_tab_host))) = error ex_recorded
   \<and> calls (snd (handleCookieManagement no_failures any_scope ex_new_URL 7 ''a''
                    (ex_recorded, ex_tab_host)))
        = [TabsGet 7, CookiesGetAll ''https://example.com/'',
           CookiesRemove ''https://example.com/'' ''other'',
           CookiesSet ''https://example.com/'' (ex_cookie ''theme'' ''dark'' ''example.com''),
           CookiesSet ''https://example.com/'' (ex_cookie ''sid'' ''1'' ''www.example.com''),
           CookiesSet ''https://example.com/'' (ex_cookie ''sid'' ''2'' ''.example.com'')]"
proof -
  have h1: "\<forall>n c. \<not> no_failures n c"
    by (simp add: no_failures_def)
  have h2: "find (\<lambda>s. id_s s = ''a'') (sessions ex_recorded) = Some (sessions ex_recorded ! 0)"
    by (simp add: ex_recorded_def ex_defs)
  have h3: "map_of (tabs ex_tab_host) 7 = Some (Some ''https://example.com'')"
    by (simp add: ex_tab_host_def ex_defs)
  have h4: "''https://example.com'' \<noteq> []"
    by simp
  have hp: "ex_new_URL ''https://example.com'' = Some ''https://example.com/''"
    by (simp add: ex_new_URL_def)
  have h5: "ex_cookie ''other'' ''x'' ''example.com''
              \<in> set (jar_getAll any_scope ''https://example.com/'' ex_tab_host)"
    by (simp add: jar_getAll_def ex_tab_host_def ex_defs)
  have h6: "name (ex_cookie ''other'' ''x'' ''example.com'')
              \<notin> set (map name (cookies (sessions ex_recorded ! 0)))"
    by (simp add: ex_recorded_def ex_defs)
  have h7: "cookies (sessions ex_recorded ! 0)
        = [ex_cookie ''theme'' ''dark'' ''example.com'']
            @ ex_cookie ''sid'' ''1'' ''www.example.com'' # [ex_cookie ''sid'' ''2'' ''.example.com'']"
    by (simp add: ex_recorded_def ex_defs)
  have h8: "\<forall>x\<in>set [ex_cookie ''sid'' ''2'' ''.example.com''].
          cookie_key x \<noteq> cookie_key (ex_cookie ''sid'' ''1'' ''www.example.com'')"
    by (simp add: cookie_key_def ex_defs)
  have h9: "cookie_key (ex_cookie ''sid'' ''2'' ''.example.com'')
              \<noteq> cookie_key (ex_cookie ''sid'' ''1'' ''www.example.com'')"
    using h8 by simp
  note r = reconciliation_pass [where new_URL = ex_new_URL and scope = any_scope
      and k = "ex_cookie ''other'' ''x'' ''example.com''"
      and pre = "[ex_cookie ''theme'' ''dark'' ''example.com'']"
      and c = "ex_cookie ''sid'' ''1'' ''www.example.com''"
      and post = "[ex_cookie ''sid'' ''2'' ''.example.com'']", OF h1 h2 h3 h4 hp]
  have trace: "calls (snd (handleCookieManagement no_failures any_scope ex_new_URL 7 ''a''
                    (ex_recorded, ex_tab_host)))
        = [TabsGet 7, CookiesGetAll ''https://example.com/'',
           CookiesRemove ''https://example.com/'' ''other'',
           CookiesSet ''https://example.com/'' (ex_cookie ''theme'' ''dark'' ''example.com''),
           CookiesSet ''https://example.com/'' (ex_cookie ''sid'' ''1'' ''www.example.com''),
           CookiesSet ''https://example.com/'' (ex_cookie ''sid'' ''2'' ''.example.com'')]"
    using r
    by (simp add: jar_getAll_def cookieDetails_def truthy_num_def ex_recorded_def
        ex_tab_host_def ex_defs)
  from r h1 h2 h3 h4 hp h5 h6 h7 h8 h9 trace
  show ?thesis by blast
qed

text \<open>
  The claim C4 as it is worded asks for every recorded cookie to be in the jar with the
  recorded attributes. When the recorded list holds two cookies of the same name,
  domain and path, the second set call replaces the result of the first: the value
  \<open>1\<close> recorded for \<open>sid\<close> is not in the jar after the pass.
\<close>

theorem reconciliation_duplicate_key_counterexample:
  "find (\<lambda>s. id_s s = ''a'') (sessions ex_dup) = Some (sessions ex_dup ! 0)
   \<and> map_of (tabs ex_tab_host) 7 = Some (Some ''https://example.com'')
   \<and> ex_new_URL ''https://example.com'' = Some ''https://example.com/''
   \<and> ex_cookie ''sid'' ''1'' ''example.com'' \<in> set (cookies (sessions ex_dup ! 0))
   \<and> error (fst (handleCookieManagement no_failures any_scope ex_new_URL 7 ''a''
                    (ex_dup, ex_tab_host))) = None
   \<and> jar (snd (handleCookieManagement no_failures any_scope ex_new_URL 7 ''a''
                  (ex_dup, ex_tab_host)))
       = [ex_cookie ''sid'' ''2'' ''example.com'']
   \<and> ex_cookie ''sid'' ''1'' ''example.com''
       \<notin> set (jar (snd (handleCookieManagement no_failures any_scope ex_new_URL 7 ''a''
                          (ex_dup, ex_tab_host))))"
  by (simp add: handleCookieManagement_def rejected_def issue_def jar_getAll_def jar_remove_def
      jar_set_def cookie_key_def cookieDetails_def truthy_num_def Let_def
      ex_dup_def ex_tab_host_def ex_defs)

section \<open>Properties of persistence\<close>



lemma id_of_written: "id_string (entry_id (entry_of_session s)) = Some (id_s s)"
  by (simp add: entry_of_session_def)

text \<open>An entry that passes the loader's filter is the stored form of exactly one
  session.\<close>

lemma read_session_exact:
  assumes "valid_session_shape e"
  shows "\<exists>s. read_session e = Some s \<and> entry_of_session s = e"
proof (cases e)
  case (Entry_Object ob)
  with assms obtain i n cs where f: "id_field ob = Some (JStr i)" "name_field ob = Some (JStr n)"
      "cookies_field ob = Some (Cookie_Array cs)"
    by (auto simp: valid_session_shape_def elim!: is_string.elims is_array.elims)
  have "ob = \<lparr>id_field = Some (JStr i), name_field = Some (JStr n),
              cookies_field = Some (Cookie_Array cs), tabId_field = tabId_field ob\<rparr>"
    using f by (cases ob) simp
  then show ?thesis
    using Entry_Object f by (simp add: entry_of_session_def)
qed (use assms in \<open>simp_all add: valid_session_shape_def\<close>)








section \<open>The active session exists\<close>

lemma active_exists_loadSessions:
  assumes "activeSessionId st = None"
  shows "active_exists (fst (loadSessions fails (st, h)))"
proof (cases "rejected fails h StorageGet")
  case True
  then show ?thesis using assms by (simp add: loadSessions_def active_exists_def Let_def)
next
  case False
  show ?thesis
  proof (cases "case storage h of None \<Rightarrow> Stored_Entries [] | Some v \<Rightarrow> v")
    case (Stored_Entries entries)
    show ?thesis
    proof (cases "filter valid_session_shape entries")
      case Nil
      then show ?thesis using False Stored_Entries assms
        by (simp add: loadSessions_def active_exists_def Let_def List.map_filter_simps)
    next
      case (Cons e es)
      then have "valid_session_shape e"
        by (metis filter_eq_ConsD)
      then obtain s where s: "read_session e = Some s" "entry_of_session s = e"
        using read_session_exact by blast
      then have "id_string (entry_id e) = Some (id_s s)"
        using id_of_written [of s] by simp
      then show ?thesis using False Stored_Entries Cons s
        by (simp add: loadSessions_def active_exists_def Let_def List.map_filter_simps)
    qed
  qed (use False assms in \<open>simp_all add: loadSessions_def active_exists_def Let_def\<close>)
qed

lemma active_exists_createSession:
  assumes "active_exists st"
  shows "active_exists (fst (createSession fails new_id nm (st, h)))"
  using assms
  by (auto simp: createSession_def active_exists_def Let_def split: option.splits)

lemma active_exists_switchSession:
  assumes "ident \<in> set (map id_s (sessions st))"
  shows "active_exists (switchSession ident st)"
  using assms by (simp add: switchSession_def active_exists_def)

lemma active_exists_deleteSession:
  assumes "active_exists st" and "activeSessionId st \<noteq> Some ident"
  shows "active_exists (fst (deleteSession fails scope ident (st, h)))"
  using assms
  by (auto simp: deleteSession_def active_exists_def Let_def split: option.splits)

text \<open>
  C5 (as amended): the predicate "the active session id, if set, is the id of a session
  in the list" holds after the startup load of a component that has no active session
  yet, and is preserved by \<open>createSession\<close>, by \<open>switchSession\<close> to the id of a
  session in the list, and by \<open>deleteSession\<close> of a session other than the active
  one.
\<close>

theorem active_exists_preserved:
  "(activeSessionId st = None \<longrightarrow> active_exists (fst (loadSessions fails (st, h))))
   \<and> (active_exists st \<longrightarrow> active_exists (fst (createSession fails new_id nm (st, h))))
   \<and> (active_exists st \<and> ident \<in> set (map id_s (sessions st))
        \<longrightarrow> active_exists (switchSession ident st))
   \<and> (active_exists st \<and> activeSessionId st \<noteq> Some ident
        \<longrightarrow> active_exists (fst (deleteSession fails scope ident (st, h))))"
  using active_exists_loadSessions active_exists_createSession active_exists_switchSession
    active_exists_deleteSession by blast

theorem active_exists_preserved_witness:
  "activeSessionId initial_state = None
   \<and> active_exists (fst (loadSessions no_failures
        (initial_state, ex_host\<lparr>storage := Some ex_stored\<rparr>)))
   \<and> active_exists ex_state
   \<and> active_exists (fst (createSession no_failures ''u1'' ''Carol'' (ex_state, ex_host)))
   \<and> ''b'' \<in> set (map id_s (sessions ex_state))
   \<and> active_exists (switchSession ''b'' ex_state)
   \<and> activeSessionId ex_state \<noteq> Some ''b''
   \<and> active_exists (fst (deleteSession no_failures any_scope ''b'' (ex_state, ex_host)))"
proof -
  have a: "activeSessionId initial_state = None" by (simp add: initial_state_def)
  have b: "active_exists ex_state" by (simp add: active_exists_def ex_defs)
  have c: "''b'' \<in> set (map id_s (sessions ex_state))" by (simp add: ex_defs)
  have d: "activeSessionId ex_state \<noteq> Some ''b''" by (simp add: ex_defs)
  from active_exists_preserved [of initial_state no_failures
      "ex_host\<lparr>storage := Some ex_stored\<rparr>"]
  have 1: "active_exists (fst (loadSessions no_failures
             (initial_state, ex_host\<lparr>storage := Some ex_stored\<rparr>)))"
    using a by blast
  from active_exists_preserved [of ex_state no_failures ex_host "''u1''" "''Carol''" "''b''"
      any_scope]
  have 2: "active_exists (fst (createSession no_failures ''u1'' ''Carol'' (ex_state, ex_host)))"
    and 3: "active_exists (switchSession ''b'' ex_state)"
    and 4: "active_exists (fst (deleteSession no_failures any_scope ''b'' (ex_state, ex_host)))"
    using b c d by blast+
  from a b c d 1 2 3 4 show ?thesis by blast
qed

text \<open>
  The claim C5 as it is worded fails for \<open>switchSession\<close>, which stores whatever id it
  is given: from a state in which the active session exists it reaches one in which
  the active id names no session.
\<close>

theorem switchSession_unknown_id_counterexample:
  "active_exists ex_state \<and> \<not> active_exists (switchSession ''zz'' ex_state)"
  by (simp add: switchSession_def active_exists_def ex_defs)

end
